theory Spec2Isabelle
  imports Complex_Main
begin

section \<open>Strings and the JavaScript built-ins the services call\<close>

text \<open>
  A JavaScript string is modelled by the bytes of its UTF-8 encoding (\<open>string\<close>, a list of
  8-bit characters). The model therefore covers the well-formed strings; a string holding a lone
  surrogate, on which \<open>encodeURIComponent\<close> throws \<open>URIError\<close>, has no UTF-8 encoding and is
  outside it.
\<close>

text \<open>\<open>Array.prototype.join\<close> on an array of strings.\<close>

fun join :: "string \<Rightarrow> string list \<Rightarrow> string" where
  "join sep [] = []"
| "join sep [x] = x"
| "join sep (x # y # ys) = x @ sep @ join sep (y # ys)"

text \<open>
  \<open>encodeURIComponent\<close> (ECMAScript, Encode with the unreserved set of URI components): the
  characters \<open>A-Z a-z 0-9 - _ . ! ~ * ' ( )\<close> are kept, every other octet of the UTF-8 encoding
  becomes \<open>%XX\<close> with two upper-case hexadecimal digits.
\<close>

definition uriUnescaped :: "char \<Rightarrow> bool" where
  "uriUnescaped c \<longleftrightarrow>
     c \<in> set (''ABCDEFGHIJKLMNOPQRSTUVWXYZabcdefghijklmnopqrstuvwxyz0123456789-_.!~*()'' @ [CHR 0x27])"

definition hexDigit :: "nat \<Rightarrow> char" where
  "hexDigit n = ''0123456789ABCDEF'' ! (n mod 16)"

definition encodeOctet :: "char \<Rightarrow> string" where
  "encodeOctet c =
     (if uriUnescaped c then [c]
      else [CHR ''%'', hexDigit (of_char c div 16), hexDigit (of_char c mod 16)])"

definition encodeURIComponent :: "string \<Rightarrow> string" where
  "encodeURIComponent s = concat (map encodeOctet s)"

text \<open>
  What the receiving side does with a query value: percent-decoding (RFC 3986, section 2.1),
  applied once. A \<open>%\<close> that is not followed by two hexadecimal digits is malformed (\<open>None\<close>).
  This is the reading of ``URL-encoded exactly once'': one decoding gives the value back.
\<close>

definition hexValue :: "char \<Rightarrow> nat option" where
  "hexValue c =
     (let n = (of_char c :: nat) in
      if 48 \<le> n \<and> n \<le> 57 then Some (n - 48)
      else if 65 \<le> n \<and> n \<le> 70 then Some (n - 55)
      else if 97 \<le> n \<and> n \<le> 102 then Some (n - 87)
      else None)"

fun percent_decode :: "string \<Rightarrow> string option" where
  "percent_decode [] = Some []"
| "percent_decode (c # cs) =
     (if c = CHR ''%'' then
        (case cs of
           h # l # rest \<Rightarrow>
             (case (hexValue h, hexValue l, percent_decode rest) of
                (Some a, Some b, Some r) \<Rightarrow> Some (char_of (16 * a + b) # r)
              | _ \<Rightarrow> None)
         | _ \<Rightarrow> None)
      else map_option ((#) c) (percent_decode cs))"

section \<open>The HTTP client wrapper: request construction\<close>

text \<open>
  An axios instance is its defaults (\<open>axios.create({baseURL, timeout})\<close>); a request is what
  \<open>instance.get\<close> / \<open>instance.post\<close> sends: method, base URL, path, the query string the
  \<open>paramsSerializer\<close> returned (axios appends it to the path after \<open>?\<close> without touching it)
  and the abort signal, if the call passes one.
\<close>

record axios_instance =
  baseURL :: string
  timeout :: nat

record 'b request =
  req_method :: string
  req_baseURL :: string
  req_url :: string
  req_query :: "string option"
  req_body :: "'b option"
  req_timeout :: nat
  req_signal :: "nat option"

text \<open>\<open>fetchArticle.ts\<close>: the \<open>paramsSerializer\<close> and the request of \<open>fetchArticle\<close>.\<close>

definition fetchArticle_paramsSerializer :: "string \<Rightarrow> string" where
  "fetchArticle_paramsSerializer query = ''query='' @ encodeURIComponent query"

definition fetchArticle :: "axios_instance \<Rightarrow> string \<Rightarrow> unit request" where
  "fetchArticle axiosInstance sourceArticleUrl =
     \<lparr>req_method = ''GET'', req_baseURL = baseURL axiosInstance,
      req_url = ''/symmetry/v1/wiki/articles'',
      req_query = Some (fetchArticle_paramsSerializer sourceArticleUrl),
      req_body = None, req_timeout = timeout axiosInstance, req_signal = None\<rparr>"

text \<open>
  \<open>translateArticle.ts\<close>: \<open>Object.entries(params)\<close> lists the two parameters in insertion
  order, \<open>title\<close> first; the serializer keeps the value of the key \<open>title\<close> as it is and
  encodes every other value.
\<close>

definition translateArticle_paramsSerializer :: "(string \<times> string) list \<Rightarrow> string" where
  "translateArticle_paramsSerializer params =
     join ''&'' (map (\<lambda>(key, value).
        if key = ''title'' then key @ ''='' @ value
        else key @ ''='' @ encodeURIComponent value) params)"

definition translateArticle :: "axios_instance \<Rightarrow> string \<Rightarrow> string \<Rightarrow> unit request" where
  "translateArticle axiosInstance article_name target_language =
     \<lparr>req_method = ''GET'', req_baseURL = baseURL axiosInstance,
      req_url = ''/symmetry/v1/wiki_translate/source_article'',
      req_query = Some (translateArticle_paramsSerializer
        [(''title'', article_name), (''language'', target_language)]),
      req_body = None, req_timeout = timeout axiosInstance, req_signal = None\<rparr>"

section \<open>Numbers as text\<close>

text \<open>
  A JavaScript number is modelled by its value, a rational; it is falsy exactly when it is
  zero. \<open>NaN\<close> cannot come out of \<open>JSON.parse\<close>; an infinity can (\<open>1e400\<close>) and is outside the
  model, as is the rounding of a numeral to a double. \<open>decimal\<close> is the decimal
  numeral of a natural number. \<open>Number_toString\<close> is what a template literal makes of a number:
  the decimal numeral for a safe integer (magnitude below \<open>2^53\<close>); for every other number the
  shortest round-trip rendering of the double, which is not modelled and is taken as the
  parameter \<open>numstr\<close>.
\<close>

type_synonym number = rat

definition digit :: "nat \<Rightarrow> char" where
  "digit n = ''0123456789'' ! (n mod 10)"

fun decimal :: "nat \<Rightarrow> string" where
  "decimal n = (if n < 10 then [digit n] else decimal (n div 10) @ [digit (n mod 10)])"

declare decimal.simps [simp del]

definition int_decimal :: "int \<Rightarrow> string" where
  "int_decimal i = (if i < 0 then ''-'' @ decimal (nat (- i)) else decimal (nat i))"

definition Number_toString :: "(number \<Rightarrow> string) \<Rightarrow> number \<Rightarrow> string" where
  "Number_toString numstr q =
     (if q = of_int \<lfloor>q\<rfloor> \<and> \<bar>q\<bar> < 2 ^ 53 then int_decimal \<lfloor>q\<rfloor> else numstr q)"

section \<open>The configuration loader (\<open>constants/AppConstants.ts\<close>)\<close>

text \<open>
  The \<open>AppConfig\<close> interface: every key is optional (\<open>None\<close> is a key the file does not have).
  The fields of the object that \<open>initializeConstants\<close> returns carry a prime.
\<close>

record AppConfig =
  BACKEND_BASE_URL :: "string option"
  BACKEND_PORT :: "number option"
  FRONTEND_PORT :: "number option"
  OLLAMA_BASE_URL :: "string option"
  DEFAULT_TIMEOUT :: "number option"
  SIMILARITY_THRESHOLD :: "number option"

record AppConstants =
  BACKEND_BASE_URL' :: string
  BACKEND_PORT' :: number
  FRONTEND_PORT' :: number
  OLLAMA_BASE_URL' :: string
  DEFAULT_TIMEOUT' :: number
  SIMILARITY_THRESHOLD' :: number

text \<open>
  The operator \<open>||\<close> on an optional number and on an optional string: the left operand when it
  is truthy (a number other than zero, a string other than the empty one), the right operand
  otherwise, also when the key is missing (\<open>undefined\<close>).
\<close>

definition or_number :: "number option \<Rightarrow> number \<Rightarrow> number" where
  "or_number v d = (case v of Some q \<Rightarrow> (if q \<noteq> 0 then q else d) | None \<Rightarrow> d)"

definition or_string :: "string option \<Rightarrow> string \<Rightarrow> string" where
  "or_string v d = (case v of Some s \<Rightarrow> (if s \<noteq> [] then s else d) | None \<Rightarrow> d)"

text \<open>
  \<open>initializeConstants\<close>. Its argument is what \<open>fs.readFile\<close> and \<open>JSON.parse\<close> gave: \<open>Inl msg\<close>
  when either threw (with the message of the error), \<open>Inr configData\<close> otherwise. A failure is
  thrown again under the prefix of the \<open>catch\<close> block.
\<close>

definition initializeConstants ::
  "(number \<Rightarrow> string) \<Rightarrow> string + AppConfig \<Rightarrow> string + AppConstants" where
  "initializeConstants numstr file =
     (case file of
        Inl msg \<Rightarrow> Inl (''Failed to initialize AppConstants: '' @ msg)
      | Inr configData \<Rightarrow> Inr
          \<lparr>BACKEND_BASE_URL' = or_string (BACKEND_BASE_URL configData)
             (''http://127.0.0.1:'' @ Number_toString numstr (or_number (BACKEND_PORT configData) 8000)),
           BACKEND_PORT' = or_number (BACKEND_PORT configData) 8000,
           FRONTEND_PORT' = or_number (FRONTEND_PORT configData) 5173,
           OLLAMA_BASE_URL' = or_string (OLLAMA_BASE_URL configData) ''http://localhost:11434'',
           DEFAULT_TIMEOUT' = or_number (DEFAULT_TIMEOUT configData) 30000,
           SIMILARITY_THRESHOLD' = or_number (SIMILARITY_THRESHOLD configData) 0.65\<rparr>)"

section \<open>The privileged process (the Electron main module)\<close>

text \<open>
  \<open>grabConfig\<close> awaits \<open>appConstantsPromise\<close> and throws a rejection again under its own
  prefix. \<open>createWindow\<close> assigns the module variable \<open>AppConstants\<close> inside a \<open>try\<close>; when
  \<open>grabConfig\<close> throws, the \<open>catch\<close> logs and the variable keeps its value (\<open>undefined\<close>, here
  \<open>None\<close>, at start). The handler of \<open>get-app-config\<close> returns the variable.
\<close>

definition grabConfig :: "string + AppConstants \<Rightarrow> string + AppConstants" where
  "grabConfig appConstantsPromise =
     (case appConstantsPromise of
        Inl msg \<Rightarrow> Inl (''Failed to load the configuration file: '' @ msg)
      | Inr c \<Rightarrow> Inr c)"

record main_process =
  AppConstants :: "AppConstants option"

definition main_start :: main_process where
  "main_start = \<lparr>AppConstants = None\<rparr>"

definition createWindow :: "string + AppConstants \<Rightarrow> main_process \<Rightarrow> main_process" where
  "createWindow appConstantsPromise m =
     (case grabConfig appConstantsPromise of
        Inr c \<Rightarrow> m\<lparr>AppConstants := Some c\<rparr>
      | Inl e \<Rightarrow> m)"

definition get_app_config :: "main_process \<Rightarrow> AppConstants option" where
  "get_app_config m = AppConstants m"

text \<open>
  The handler of \<open>start-backend\<close>. A value that is thrown is an \<open>Error\<close> with its message or
  something else. The arguments say whether \<open>exec\<close> or \<open>execFile\<close> throws at the call, and what
  \<open>execFile\<close> hands to its completion callback later (\<open>Some msg\<close>: the child failed with an error
  of that message). The callback returns \<open>{success: false, error}\<close> on an error and nothing
  otherwise; \<open>execFile\<close> drops what its callback returns, and the handler has returned by then.
  Console output is not modelled.
\<close>

datatype thrown = Error string | Not_an_Error

record start_result =
  success :: bool
  error :: "string option"

definition execFile_callback :: "string option \<Rightarrow> start_result option" where
  "execFile_callback err =
     (case err of
        Some msg \<Rightarrow> Some \<lparr>success = False, error = Some msg\<rparr>
      | None \<Rightarrow> None)"

definition start_backend_handler ::
  "thrown option \<Rightarrow> thrown option \<Rightarrow> string option \<Rightarrow> start_result" where
  "start_backend_handler exec_throws execFile_throws child_error =
     (case exec_throws of
        Some (Error msg) \<Rightarrow> \<lparr>success = False, error = Some msg\<rparr>
      | Some Not_an_Error \<Rightarrow> \<lparr>success = False, error = Some ''Unknown error''\<rparr>
      | None \<Rightarrow>
          (case execFile_throws of
             Some (Error msg) \<Rightarrow> \<lparr>success = False, error = Some msg\<rparr>
           | Some Not_an_Error \<Rightarrow> \<lparr>success = False, error = Some ''Unknown error''\<rparr>
           | None \<Rightarrow>
               (let dropped = execFile_callback child_error
                in \<lparr>success = True, error = None\<rparr>)))"

section \<open>The HTTP client wrapper: resolving the client (\<open>services/axios.ts\<close>)\<close>

text \<open>
  What \<open>await window.electronAPI.getAppConfig()\<close> does in the renderer: it throws because the
  bridge is not there, the call is rejected, or it resolves to what the handler returned.
\<close>

datatype bridge = Bridge_unreachable | Bridge_rejected string | Bridge_resolved "AppConstants option"

definition fallback_instance :: axios_instance where
  "fallback_instance = \<lparr>baseURL = ''http://127.0.0.1:8000'', timeout = 30000\<rparr>"

definition getAxiosInstance :: "bridge \<Rightarrow> axios_instance" where
  "getAxiosInstance b =
     (case b of
        Bridge_resolved (Some c) \<Rightarrow>
          (if BACKEND_BASE_URL' c = [] then fallback_instance
           else \<lparr>baseURL = BACKEND_BASE_URL' c, timeout = 30000\<rparr>)
      | _ \<Rightarrow> fallback_instance)"

section \<open>The compare service (\<open>services/compareArticles.ts\<close>)\<close>

text \<open>
  What the state cell \<open>targetLanguage\<close> can hold. The code means a string; the mount effect of
  the comparison view can also leave a \<open>String\<close> object, a boolean or \<open>Object.prototype\<close> in
  it (see \<open>useState_inherited\<close> below), and \<open>onSubmit\<close> hands the cell to \<open>compareArticles\<close>
  as it is.
\<close>

datatype language_cell = Text string | String_object string | Boolean bool | Object_prototype

record compare_body =
  article_text_blob_1 :: string
  article_text_blob_2 :: string
  article_text_blob_1_language :: string
  article_text_blob_2_language :: language_cell
  model_name :: string

text \<open>\<open>compareArticles\<close> posts the body; the call has no third argument, so no signal.\<close>

definition compareArticles ::
  "axios_instance \<Rightarrow> string \<Rightarrow> string \<Rightarrow> string \<Rightarrow> language_cell
     \<Rightarrow> compare_body request" where
  "compareArticles axiosInstance textA textB languageA languageB =
     \<lparr>req_method = ''POST'', req_baseURL = baseURL axiosInstance,
      req_url = ''/symmetry/v1/articles/compare'',
      req_query = None,
      req_body = Some \<lparr>article_text_blob_1 = textA, article_text_blob_2 = textB,
        article_text_blob_1_language = languageA, article_text_blob_2_language = languageB,
        model_name = ''default''\<rparr>,
      req_timeout = timeout axiosInstance, req_signal = None\<rparr>"

text \<open>
  What a caller sees of a failed request: \<open>error.code\<close>, \<open>error.response\<close> (its status and
  \<open>data.detail\<close>) and \<open>error.message\<close>. A detail is a string, some other truthy value (with the
  text a template literal makes of it) or a falsy value that is not a string.
\<close>

datatype detail = Detail_string string | Detail_truthy string | Detail_falsy

record error_response =
  status :: nat
  detail :: "detail option"

record axios_error =
  code :: "string option"
  response :: "error_response option"
  message :: string

text \<open>
  How axios settles a request. \<open>controllers\<close> holds the \<open>aborted\<close> flag of every
  \<open>AbortController\<close> made so far; a request that carries the signal of an aborted controller is
  rejected with \<open>CanceledError\<close> (code \<open>ERR_CANCELED\<close>); every other request settles as the
  backend and the network decide.
\<close>

definition CanceledError :: axios_error where
  "CanceledError = \<lparr>code = Some ''ERR_CANCELED'', response = None, message = ''canceled''\<rparr>"

definition axios_settle ::
  "'b request \<Rightarrow> bool list \<Rightarrow> axios_error + 'a \<Rightarrow> axios_error + 'a" where
  "axios_settle req controllers backend =
     (case req_signal req of
        Some k \<Rightarrow> (if k < length controllers \<and> controllers ! k then Inl CanceledError else backend)
      | None \<Rightarrow> backend)"

section \<open>The comparison view (\<open>components/ComparisonSection.tsx\<close>)\<close>

record comparison =
  left_article_array :: "string list"
  right_article_array :: "string list"
  left_article_missing_info_index :: "int list"
  right_article_extra_info_index :: "int list"

text \<open>
  The state of a mounted \<open>ComparisonSection\<close>: its \<open>useState\<close> cells, the two form values, and
  what its handlers have done outside React. \<open>abortController\<close> is a \<open>let\<close> of the component
  body, so every render has a variable of its own, \<open>null\<close> when the render starts:
  \<open>abortController s r\<close> is the variable of render \<open>r\<close> (\<open>None\<close> is \<open>null\<close>, \<open>Some k\<close> the
  controller number \<open>k\<close>), and \<open>render s\<close> is the render on screen, whose handlers the buttons
  call. \<open>alerts\<close> lists the messages shown with \<open>alert\<close>.
\<close>

record ComparisonSection =
  isLoading :: bool
  comparisonResult :: "comparison option"
  sourceText :: string
  targetText :: string
  elapsedTime :: nat
  isRunning :: bool
  sourceLanguage :: string
  targetLanguage :: language_cell
  targetUrl :: string
  isTargetTextReadOnly :: bool
  isTargetLanguageReadOnly :: bool
  form_sourceText :: string
  form_targetText :: string
  render :: nat
  abortController :: "nat \<rightharpoonup> nat"
  controllers :: "bool list"
  alerts :: "string list"

definition ComparisonSection_initial :: ComparisonSection where
  "ComparisonSection_initial =
     \<lparr>isLoading = False, comparisonResult = None, sourceText = [], targetText = [],
      elapsedTime = 0, isRunning = False, sourceLanguage = ''en'',
      targetLanguage = Text ''en'',
      targetUrl = [], isTargetTextReadOnly = False, isTargetLanguageReadOnly = False,
      form_sourceText = [], form_targetText = [],
      render = 0, abortController = Map.empty, controllers = [], alerts = []\<rparr>"

text \<open>The timer effect: one tick a second while running (a state change, so a new render).\<close>

definition tick :: "ComparisonSection \<Rightarrow> ComparisonSection" where
  "tick s = (if isRunning s then s\<lparr>elapsedTime := elapsedTime s + 1, render := Suc (render s)\<rparr> else s)"

text \<open>The message of the \<open>catch\<close> block of \<open>onSubmit\<close>, in the order of its tests.\<close>

definition detail_or :: "detail option \<Rightarrow> string \<Rightarrow> string" where
  "detail_or d dflt =
     (case d of
        Some (Detail_string t) \<Rightarrow> (if t \<noteq> [] then t else dflt)
      | Some (Detail_truthy t) \<Rightarrow> t
      | _ \<Rightarrow> dflt)"

definition compare_error_message :: "nat \<Rightarrow> axios_error \<Rightarrow> string" where
  "compare_error_message elapsed e =
     (if code e = Some ''ECONNABORTED'' then
        ''Comparison request timed out after '' @ decimal elapsed @
        ''s. The comparison is taking longer than expected. Please try again or reduce the amount of text being compared.''
      else if code e = Some ''ERR_CANCELED'' then ''Comparison was stopped by the user.''
      else
        (case response e of
           Some r \<Rightarrow>
             (if status r = 400 then
                ''Bad Request: '' @ detail_or (detail r) ''Invalid request parameters.''
              else if status r = 404 then
                ''Comparison endpoint not found (404). '' @
                detail_or (detail r) ''Please check that the backend server is running.''
              else if status r = 422 then
                ''Validation Error: '' @ detail_or (detail r) ''The request contains invalid data.''
              else if status r \<ge> 500 then
                ''Server error ('' @ decimal (status r) @ ''): '' @
                detail_or (detail r) ''The backend encountered an error. Check backend logs for details.''
              else ''Comparison failed: '' @ message e)
         | None \<Rightarrow>
             ''Unable to connect to the backend server. Please ensure the backend is running at the configured URL. (''
             @ message e @ '')''))"

text \<open>
  \<open>onSubmit\<close> up to its \<open>await\<close>: the handler of the render on screen makes a controller and
  stores it in that render's variable, sets the three state cells and sends the request. The
  state changes, so React renders again while the request is in flight. What the closure keeps
  for later is a \<open>submission\<close>: its render, the \<open>elapsedTime\<close> it saw and the form data.
\<close>

record submission =
  sub_render :: nat
  sub_elapsedTime :: nat
  sub_sourceText :: string
  sub_targetText :: string

definition onSubmit_begin ::
  "axios_instance \<Rightarrow> string \<Rightarrow> string \<Rightarrow> ComparisonSection
     \<Rightarrow> ComparisonSection \<times> submission \<times> compare_body request" where
  "onSubmit_begin axiosInstance data_sourceText data_targetText s =
     (let r = render s;
          s1 = s\<lparr>controllers := controllers s @ [False],
                 abortController := (abortController s)(r \<mapsto> length (controllers s))\<rparr>;
          s2 = s1\<lparr>isLoading := True, isRunning := True, comparisonResult := None\<rparr>;
          req = compareArticles axiosInstance data_sourceText data_targetText
                  (sourceLanguage s) (targetLanguage s)
      in (s2\<lparr>render := Suc r\<rparr>,
          \<lparr>sub_render = r, sub_elapsedTime = elapsedTime s,
           sub_sourceText = data_sourceText, sub_targetText = data_targetText\<rparr>,
          req))"

text \<open>
  The Stop button exists while \<open>isLoading\<close>; its handler is \<open>onStopComparison\<close> of the render on
  screen, which aborts the controller in that render's variable, if there is one.
\<close>

definition onStopComparison :: "ComparisonSection \<Rightarrow> ComparisonSection" where
  "onStopComparison s =
     (case abortController s (render s) of
        Some k \<Rightarrow> s\<lparr>controllers := (controllers s)[k := True]\<rparr>
      | None \<Rightarrow> s)"

definition click_Stop :: "ComparisonSection \<Rightarrow> ComparisonSection" where
  "click_Stop s = (if isLoading s then onStopComparison s else s)"

text \<open>
  \<open>onSubmit\<close> after its \<open>await\<close>: the \<open>try\<close> body on a response (\<open>comparisons[0]\<close> is
  \<open>undefined\<close> for an empty array), the \<open>catch\<close> on an error, then \<open>finally\<close>. With \<open>isRunning\<close>
  false again the timer effect resets \<open>elapsedTime\<close>.
\<close>

definition onSubmit_settle ::
  "submission \<Rightarrow> axios_error + comparison list \<Rightarrow> ComparisonSection \<Rightarrow> ComparisonSection" where
  "onSubmit_settle sub outcome s =
     (let s1 = (case outcome of
                  Inr comparisons \<Rightarrow>
                    s\<lparr>comparisonResult := (case comparisons of [] \<Rightarrow> None | c # rest \<Rightarrow> Some c),
                      sourceText := sub_sourceText sub,
                      targetText := sub_targetText sub\<rparr>
                | Inl e \<Rightarrow>
                    s\<lparr>alerts := alerts s @ [compare_error_message (sub_elapsedTime sub) e]\<rparr>)
      in s1\<lparr>isLoading := False, isRunning := False,
            abortController := (abortController s1)(sub_render sub := None),
            elapsedTime := 0, render := Suc (render s1)\<rparr>)"

text \<open>
  A whole submission during which the user clicks Stop \<open>stops\<close> times and the timer ticks
  \<open>ticks\<close> times before the backend answers \<open>backend\<close>.
\<close>

definition submit_and_stop ::
  "axios_instance \<Rightarrow> string \<Rightarrow> string \<Rightarrow> nat \<Rightarrow> nat \<Rightarrow> axios_error + comparison list
     \<Rightarrow> ComparisonSection \<Rightarrow> ComparisonSection" where
  "submit_and_stop axiosInstance data_sourceText data_targetText ticks stops backend s =
     (case onSubmit_begin axiosInstance data_sourceText data_targetText s of
        (s1, sub, req) \<Rightarrow>
          (let s2 = (click_Stop ^^ stops) ((tick ^^ ticks) s1)
           in onSubmit_settle sub (axios_settle req (controllers s2) backend) s2))"

text \<open>
  The results section. \<open>arr[index]\<close> outside the array is \<open>undefined\<close>, which React renders as
  nothing; the text of an item is \<open>Sentence {index + 1}: "{arr[index]}"\<close>.
\<close>

datatype node = Separator | H3 string | H4 string | Ul "string list" | Div string

definition array_at :: "string list \<Rightarrow> int \<Rightarrow> string" where
  "array_at arr index = (if 0 \<le> index \<and> index < int (length arr) then arr ! nat index else [])"

definition sentence_item :: "string list \<Rightarrow> int \<Rightarrow> string" where
  "sentence_item arr index =
     ''Sentence '' @ int_decimal (index + 1) @ '': '' @ [CHR 0x22] @ array_at arr index @ [CHR 0x22]"

definition render_results :: "comparison option \<Rightarrow> node list" where
  "render_results result =
     (case result of
        None \<Rightarrow> []
      | Some c \<Rightarrow>
          [Separator, H3 ''Comparison Results''] @
          (if length (right_article_extra_info_index c) > 0 then
             [H4 ''Missing Information in Translation'',
              Ul (map (sentence_item (right_article_array c)) (right_article_extra_info_index c))]
           else []) @
          (if length (left_article_missing_info_index c) > 0 then
             [H4 ''Extra Information in Translation'',
              Ul (map (sentence_item (left_article_array c)) (left_article_missing_info_index c))]
           else []) @
          (if length (right_article_extra_info_index c) = 0
              \<and> length (left_article_missing_info_index c) = 0 then
             [Div ''No significant differences found between the texts.'']
           else []))"

section \<open>The handoff from the translation view to the comparison view\<close>

text \<open>
  The value under the key \<open>comparisonData\<close>. Session storage holds its JSON text; the model
  holds the value itself (\<open>JSON.parse\<close> gives back what \<open>JSON.stringify\<close> was given, an object
  of four strings). The key \<open>targetLanguage\<close> of the stored object is the field \<open>targetLang\<close>, the
  name the reading side binds it to.
\<close>

datatype Phase = TRANSLATION | AI_COMPARISON | STRUCTURED_ARTICLE

record TranslationForm =
  sourceArticleUrl :: string
  targetArticleLanguage :: string
  sourceArticleContent :: string
  translatedArticleContent :: string

record handoff =
  sourceContent :: string
  translatedContent :: string
  sourceUrl :: string
  targetLang :: string

text \<open>
  The page (\<open>Home\<close>): the phase on screen, a \<open>setPhase\<close> that a running handler has queued
  (React applies it when the handler has returned), session storage, the comparison view when
  it is mounted, an error nothing caught, and the calls of \<open>handleCompare\<close> in order.
\<close>

datatype event = Navigation_click | Storage_setItem string handoff

text \<open>
  The two errors that mounting the comparison view can end in: the \<open>TypeError\<close> of \<open>new URL\<close>
  inside the effect, and the \<open>TypeError\<close> of a built-in method that React calls as a state
  updater in the render after the effect (with the name of the method).
\<close>

datatype exception = TypeError_new_URL | TypeError_updater string

record app =
  phase :: Phase
  queued_phase :: "Phase option"
  sessionStorage :: "string \<rightharpoonup> handoff"
  comparison_view :: "ComparisonSection option"
  uncaught :: "exception option"
  events :: "event list"

text \<open>
  \<open>handleCompare\<close> of \<open>TranslationSection\<close>: it reads the four form values, clicks the
  navigation button if \<open>document.querySelector\<close> found one (\<open>button_found\<close>), whose handler
  calls \<open>setPhase(Phase.AI_COMPARISON)\<close>, and then stores the value.
\<close>

definition handleCompare :: "bool \<Rightarrow> TranslationForm \<Rightarrow> app \<Rightarrow> app" where
  "handleCompare button_found form a =
     (let h = \<lparr>sourceContent = sourceArticleContent form,
               translatedContent = translatedArticleContent form,
               sourceUrl = sourceArticleUrl form,
               targetLang = targetArticleLanguage form\<rparr>;
          a1 = (if button_found
                then a\<lparr>queued_phase := Some AI_COMPARISON, events := events a @ [Navigation_click]\<rparr>
                else a)
      in a1\<lparr>sessionStorage := (sessionStorage a1)(''comparisonData'' \<mapsto> h),
            events := events a1 @ [Storage_setItem ''comparisonData'' h]\<rparr>)"

text \<open>
  The search \<open>sourceUrl.match(/https?:\/\/([a-z]{2})\.wikipedia\.org/)\<close>: the first position
  where the pattern matches, and the two letters of its group.
\<close>

definition drop_prefix :: "string \<Rightarrow> string \<Rightarrow> string option" where
  "drop_prefix p s = (if take (length p) s = p then Some (drop (length p) s) else None)"

definition lower_letter :: "char \<Rightarrow> bool" where
  "lower_letter c \<longleftrightarrow> 97 \<le> (of_char c :: nat) \<and> (of_char c :: nat) \<le> 122"

definition match_here :: "string \<Rightarrow> string option" where
  "match_here s =
     (case drop_prefix ''http'' s of
        None \<Rightarrow> None
      | Some r \<Rightarrow>
          (case drop_prefix ''://'' (case r of c # t \<Rightarrow> (if c = CHR ''s'' then t else r) | [] \<Rightarrow> r) of
             Some (a # b # rest) \<Rightarrow>
               (if lower_letter a \<and> lower_letter b \<and> drop_prefix ''.wikipedia.org'' rest \<noteq> None
                then Some [a, b] else None)
           | _ \<Rightarrow> None))"

fun wikipedia_match :: "string \<Rightarrow> string option" where
  "wikipedia_match [] = match_here []"
| "wikipedia_match (c # cs) =
     (case match_here (c # cs) of Some g \<Rightarrow> Some g | None \<Rightarrow> wikipedia_match cs)"

text \<open>
  Built-ins that are taken as parameters. \<open>URL_rehost src host\<close> is the text of
  \<open>new URL(src)\<close> after \<open>hostname = host\<close>, or \<open>None\<close> when the constructor throws
  \<open>TypeError\<close>; \<open>toLowerCase\<close> is the method of strings. One fact about the constructor is
  modelled: with no base URL, a string with no scheme (after the parser has removed tabs and
  newlines and leading control characters and spaces: a letter, then letters, digits, \<open>+\<close>,
  \<open>-\<close> or \<open>.\<close>, up to a colon) does not parse.
\<close>

record builtins =
  URL_rehost :: "string \<Rightarrow> string \<Rightarrow> string option"
  toLowerCase :: "string \<Rightarrow> string"

definition ascii_alpha :: "char \<Rightarrow> bool" where
  "ascii_alpha c \<longleftrightarrow>
     (65 \<le> (of_char c :: nat) \<and> (of_char c :: nat) \<le> 90) \<or> lower_letter c"

definition scheme_char :: "char \<Rightarrow> bool" where
  "scheme_char c \<longleftrightarrow>
     ascii_alpha c \<or> (48 \<le> (of_char c :: nat) \<and> (of_char c :: nat) \<le> 57) \<or> c \<in> set ''+-.''"

definition has_scheme :: "string \<Rightarrow> bool" where
  "has_scheme s =
     (case dropWhile (\<lambda>c. (of_char c :: nat) \<le> 32)
             (filter (\<lambda>c. (of_char c :: nat) \<notin> {9, 10, 13}) s) of
        [] \<Rightarrow> False
      | c # cs \<Rightarrow>
          ascii_alpha c \<and>
          (case dropWhile scheme_char cs of d # rest \<Rightarrow> d = CHR '':'' | [] \<Rightarrow> False))"

definition new_URL_rehost :: "builtins \<Rightarrow> string \<Rightarrow> string \<Rightarrow> string option" where
  "new_URL_rehost bi src host = (if has_scheme src then URL_rehost bi src host else None)"

text \<open>
  \<open>langMap\<close> is an object literal: \<open>langMap[key]\<close> is its own property \<open>key\<close> if it has one, and
  otherwise the property \<open>key\<close> of \<open>Object.prototype\<close>, if that has one. Every property of
  \<open>Object.prototype\<close> is truthy: eleven are functions, \<open>__proto__\<close> reads as \<open>Object.prototype\<close>
  itself.
\<close>

definition langMap :: "string \<rightharpoonup> string" where
  "langMap = [''English'' \<mapsto> ''en'', ''French'' \<mapsto> ''fr'', ''Hindi'' \<mapsto> ''hi'', ''Arabic'' \<mapsto> ''ar'']"

definition Object_prototype_properties :: "string list" where
  "Object_prototype_properties =
     [''constructor'', ''hasOwnProperty'', ''isPrototypeOf'', ''propertyIsEnumerable'',
      ''toLocaleString'', ''toString'', ''valueOf'', ''__proto__'',
      ''__defineGetter__'', ''__defineSetter__'', ''__lookupGetter__'', ''__lookupSetter__'']"

datatype property = Own string | Inherited string | Absent

definition langMap_get :: "string \<Rightarrow> property" where
  "langMap_get key =
     (case langMap key of
        Some l \<Rightarrow> Own l
      | None \<Rightarrow> (if key \<in> set Object_prototype_properties then Inherited key else Absent))"

text \<open>
  \<open>setTargetLanguage(Object.prototype[key])\<close> in a view whose cell holds the string \<open>prev\<close>. A
  function is a state updater to React, which calls it as \<open>f(prev)\<close> with no \<open>this\<close> when it
  renders next: \<open>toString\<close> gives \<open>[object Undefined]\<close>, \<open>constructor\<close> (that is \<open>Object\<close>) wraps the
  string in a \<open>String\<close> object, \<open>isPrototypeOf\<close> gives \<open>false\<close> for a string, and the other
  eight functions throw \<open>TypeError\<close>, having no object to work on. \<open>__proto__\<close> is not a function
  and becomes the state itself.
\<close>

definition useState_inherited :: "string \<Rightarrow> string \<Rightarrow> exception + language_cell" where
  "useState_inherited key prev =
     (if key = ''toString'' then Inr (Text ''[object Undefined]'')
      else if key = ''constructor'' then Inr (String_object prev)
      else if key = ''isPrototypeOf'' then Inr (Boolean False)
      else if key = ''__proto__'' then Inr Object_prototype
      else Inl (TypeError_updater key))"

text \<open>
  The effect that \<open>ComparisonSection\<close> runs when it mounts, on the initial state of the view
  (\<open>targetLanguage\<close> is \<open>en\<close>), together with the render that applies the state it set. It
  returns the error that ended it, if any, session storage and the state of the view.
  \<open>removeItem\<close> is the last statement of the effect: an exception of \<open>new URL\<close> leaves the effect
  before it, an exception of a state updater comes after it.
\<close>

definition mount_effect ::
  "builtins \<Rightarrow> (string \<rightharpoonup> handoff)
     \<Rightarrow> exception option \<times> (string \<rightharpoonup> handoff) \<times> ComparisonSection" where
  "mount_effect bi store =
     (case store ''comparisonData'' of
        None \<Rightarrow> (None, store, ComparisonSection_initial)
      | Some h \<Rightarrow>
          (let s1 = ComparisonSection_initial
                      \<lparr>sourceText := sourceContent h, targetText := translatedContent h\<rparr>;
               removed = store(''comparisonData'' := None);
               setValue = (\<lambda>s'. s'\<lparr>form_sourceText := sourceContent h,
                                    form_targetText := translatedContent h\<rparr>);
               readOnly = (\<lambda>s'. s'\<lparr>isTargetTextReadOnly := True, isTargetLanguageReadOnly := True\<rparr>)
           in if sourceUrl h = [] then (None, removed, setValue s1)
              else
                (let s2 = s1\<lparr>sourceLanguage :=
                            (case wikipedia_match (sourceUrl h) of Some g \<Rightarrow> g | None \<Rightarrow> ''en'')\<rparr>
                 in if targetLang h = [] then (None, removed, setValue (readOnly s2))
                    else
                      (case new_URL_rehost bi (sourceUrl h)
                              (toLowerCase bi (targetLang h) @ ''.wikipedia.org'') of
                         None \<Rightarrow> (Some TypeError_new_URL, store, s2)
                       | Some u \<Rightarrow>
                           (let s3 = setValue (readOnly (s2\<lparr>targetUrl := u\<rparr>))
                            in case langMap_get (targetLang h) of
                                 Own l \<Rightarrow>
                                   (None, removed,
                                    s3\<lparr>targetLanguage :=
                                         Text (if l \<noteq> [] then l else toLowerCase bi (targetLang h))\<rparr>)
                               | Absent \<Rightarrow>
                                   (None, removed,
                                    s3\<lparr>targetLanguage := Text (toLowerCase bi (targetLang h))\<rparr>)
                               | Inherited key \<Rightarrow>
                                   (case useState_inherited key ''en'' of
                                      Inr cell \<Rightarrow> (None, removed, s3\<lparr>targetLanguage := cell\<rparr>)
                                    | Inl e \<Rightarrow> (Some e, removed, s3)))))))"

text \<open>
  \<open>Home\<close> renders the view of the phase: entering \<open>AI_COMPARISON\<close> mounts a fresh
  \<open>ComparisonSection\<close> and runs its effect, leaving it unmounts the view. An error of the
  effect or of the render after it is caught by nothing, and React takes the view down.
\<close>

definition mount_ComparisonSection :: "builtins \<Rightarrow> app \<Rightarrow> app" where
  "mount_ComparisonSection bi a =
     (case mount_effect bi (sessionStorage a) of
        (None, store, s) \<Rightarrow> a\<lparr>sessionStorage := store, comparison_view := Some s\<rparr>
      | (Some x, store, s) \<Rightarrow>
          a\<lparr>sessionStorage := store, comparison_view := None, uncaught := Some x\<rparr>)"

definition commit :: "builtins \<Rightarrow> app \<Rightarrow> app" where
  "commit bi a =
     (case queued_phase a of
        None \<Rightarrow> a
      | Some p \<Rightarrow>
          (let a1 = a\<lparr>phase := p, queued_phase := None\<rparr>
           in if p = AI_COMPARISON
              then (if phase a = AI_COMPARISON then a1 else mount_ComparisonSection bi a1)
              else a1\<lparr>comparison_view := None\<rparr>))"

definition click_phase :: "builtins \<Rightarrow> Phase \<Rightarrow> app \<Rightarrow> app" where
  "click_phase bi p a = commit bi (a\<lparr>queued_phase := Some p\<rparr>)"

definition app_start :: app where
  "app_start = \<lparr>phase = TRANSLATION, queued_phase = None, sessionStorage = Map.empty,
                comparison_view = None, uncaught = None, events = []\<rparr>"

section \<open>Percent-encoding: what the serializers put on the wire\<close>

lemma hex_table:
  "list_all (\<lambda>n. hexValue (hexDigit n) = Some n \<and> uriUnescaped (hexDigit n)) [0..<16]"
  by code_simp

lemma hexValue_hexDigit: "n < 16 \<Longrightarrow> hexValue (hexDigit n) = Some n"
  using hex_table by (simp add: list_all_iff)

lemma hexDigit_unescaped: "uriUnescaped (hexDigit n)"
proof -
  have "n mod 16 \<in> set [0..<16]" by simp
  then have "uriUnescaped (hexDigit (n mod 16))"
    using hex_table unfolding list_all_iff by blast
  then show ?thesis by (simp add: hexDigit_def)
qed

lemma percent_not_unescaped: "\<not> uriUnescaped (CHR ''%'')"
  by (simp add: uriUnescaped_def)

lemma percent_decode_encodeOctet:
  "percent_decode (encodeOctet c @ rest) = map_option ((#) c) (percent_decode rest)"
proof (cases "uriUnescaped c")
  case True
  then have "c \<noteq> CHR ''%''" using percent_not_unescaped by auto
  with True show ?thesis by (simp add: encodeOctet_def)
next
  case False
  have "(of_char c :: nat) < 16 * 16" by simp
  then have hi: "(of_char c :: nat) div 16 < 16" by (rule less_mult_imp_div_less)
  have lo: "(of_char c :: nat) mod 16 < 16" by simp
  have recon: "char_of (16 * ((of_char c :: nat) div 16) + (of_char c :: nat) mod 16) = c"
    by simp
  show ?thesis
    using False hexValue_hexDigit[OF hi] hexValue_hexDigit[OF lo] recon
    by (cases "percent_decode rest") (simp_all add: encodeOctet_def)
qed

lemma percent_decode_encodeURIComponent_append:
  "percent_decode (encodeURIComponent s @ rest) = map_option ((@) s) (percent_decode rest)"
proof (induction s)
  case Nil
  show ?case by (simp add: encodeURIComponent_def option.map_ident)
next
  case (Cons c s)
  have eta: "(@) (c # s) = (\<lambda>x. c # s @ x)" by auto
  have "percent_decode (encodeURIComponent (c # s) @ rest)
        = percent_decode (encodeOctet c @ (encodeURIComponent s @ rest))"
    by (simp add: encodeURIComponent_def)
  also have "\<dots> = map_option ((#) c) (percent_decode (encodeURIComponent s @ rest))"
    by (rule percent_decode_encodeOctet)
  also have "\<dots> = map_option ((@) (c # s)) (percent_decode rest)"
    by (simp add: Cons.IH option.map_comp comp_def eta)
  finally show ?case .
qed

lemma percent_decode_encodeURIComponent:
  "percent_decode (encodeURIComponent s) = Some s"
  using percent_decode_encodeURIComponent_append[of s "[]"] by simp

lemma encodeOctet_chars: "set (encodeOctet c) \<subseteq> {d. uriUnescaped d} \<union> {CHR ''%''}"
  by (auto simp: encodeOctet_def hexDigit_unescaped)

lemma encodeURIComponent_chars:
  "set (encodeURIComponent s) \<subseteq> {d. uriUnescaped d} \<union> {CHR ''%''}"
  using encodeOctet_chars by (fastforce simp: encodeURIComponent_def)

lemma encodeURIComponent_append:
  "encodeURIComponent (a @ b) = encodeURIComponent a @ encodeURIComponent b"
  by (simp add: encodeURIComponent_def)

lemma encodeURIComponent_Cons:
  "encodeURIComponent (c # s) = encodeOctet c @ encodeURIComponent s"
  by (simp add: encodeURIComponent_def)

lemma encodeURIComponent_reserved_absent:
  "\<not> uriUnescaped c \<Longrightarrow> c \<noteq> CHR ''%'' \<Longrightarrow> c \<notin> set (encodeURIComponent s)"
  using encodeURIComponent_chars[of s] by auto

lemma encodeOctet_ampersand: "encodeOctet (CHR ''&'') = ''%26''"
  by code_simp

lemma encodeOctet_slash: "encodeOctet (CHR ''/'') = ''%2F''"
  by code_simp

text \<open>
  Claim C3. For every \<open>url\<close>, the query string of \<open>fetchArticle(url)\<close> is \<open>query=\<close> followed
  by the percent-encoding of \<open>url\<close>, applied once: decoding it once gives \<open>url\<close> back, it holds
  only unreserved characters and \<open>%\<close>, no raw \<open>&\<close>, and every \<open>&\<close> of \<open>url\<close> appears as \<open>%26\<close>.
\<close>

theorem fetchArticle_encodes_url_once:
  "req_query (fetchArticle axiosInstance url) = Some (''query='' @ encodeURIComponent url)
   \<and> percent_decode (encodeURIComponent url) = Some url
   \<and> set (encodeURIComponent url) \<subseteq> {d. uriUnescaped d} \<union> {CHR ''%''}
   \<and> CHR ''&'' \<notin> set (encodeURIComponent url)
   \<and> encodeURIComponent (a @ ''&'' @ b) = encodeURIComponent a @ ''%26'' @ encodeURIComponent b"
proof -
  have amp: "\<not> uriUnescaped (CHR ''&'')" by (simp add: uriUnescaped_def)
  show ?thesis
    using encodeURIComponent_reserved_absent[OF amp, of url] encodeURIComponent_chars[of url]
    by (simp add: fetchArticle_def fetchArticle_paramsSerializer_def
        percent_decode_encodeURIComponent encodeURIComponent_append
        encodeURIComponent_Cons encodeOctet_ampersand)
qed

theorem fetchArticle_encodes_url_once_witness:
  "req_query (fetchArticle fallback_instance ''https://en.wikipedia.org/wiki/A&B'')
     = Some ''query=https%3A%2F%2Fen.wikipedia.org%2Fwiki%2FA%26B''
   \<and> percent_decode ''https%3A%2F%2Fen.wikipedia.org%2Fwiki%2FA%26B''
     = Some ''https://en.wikipedia.org/wiki/A&B''
   \<and> CHR ''&'' \<notin> set ''https%3A%2F%2Fen.wikipedia.org%2Fwiki%2FA%26B''"
proof -
  have e: "encodeURIComponent ''https://en.wikipedia.org/wiki/A&B''
           = ''https%3A%2F%2Fen.wikipedia.org%2Fwiki%2FA%26B''"
    by code_simp
  show ?thesis
    using fetchArticle_encodes_url_once
      [of fallback_instance "''https://en.wikipedia.org/wiki/A&B''" "[]" "[]"]
    unfolding e by simp
qed

text \<open>
  Claim C2. For every \<open>title\<close> and \<open>language\<close>, the query string of
  \<open>translateArticle(title, language)\<close> is \<open>title=\<close>, the title as it is (a space stays a
  space), \<open>&language=\<close>, and the percent-encoding of the language, in which no raw \<open>/\<close> is
  left: every \<open>/\<close> appears as \<open>%2F\<close>.
\<close>

theorem translateArticle_title_raw_language_encoded:
  "req_query (translateArticle axiosInstance title language)
     = Some (''title='' @ title @ ''&language='' @ encodeURIComponent language)
   \<and> percent_decode (encodeURIComponent language) = Some language
   \<and> set (encodeURIComponent language) \<subseteq> {d. uriUnescaped d} \<union> {CHR ''%''}
   \<and> CHR ''/'' \<notin> set (encodeURIComponent language)
   \<and> encodeURIComponent (a @ ''/'' @ b) = encodeURIComponent a @ ''%2F'' @ encodeURIComponent b
   \<and> req_query (translateArticle axiosInstance (t1 @ '' '' @ t2) language)
     = Some (''title='' @ t1 @ '' '' @ t2 @ ''&language='' @ encodeURIComponent language)"
proof -
  have sl: "\<not> uriUnescaped (CHR ''/'')" by (simp add: uriUnescaped_def)
  have q: "\<And>t. req_query (translateArticle axiosInstance t language)
     = Some (''title='' @ t @ ''&language='' @ encodeURIComponent language)"
    by (simp add: translateArticle_def translateArticle_paramsSerializer_def)
  show ?thesis
    using encodeURIComponent_reserved_absent[OF sl, of language]
      encodeURIComponent_chars[of language]
    by (simp add: q percent_decode_encodeURIComponent encodeURIComponent_append
        encodeURIComponent_Cons encodeOctet_slash)
qed

theorem translateArticle_title_raw_language_encoded_witness:
  "req_query (translateArticle fallback_instance ''Albert Einstein'' ''zh/hans'')
     = Some ''title=Albert Einstein&language=zh%2Fhans''
   \<and> percent_decode ''zh%2Fhans'' = Some ''zh/hans''
   \<and> CHR ''/'' \<notin> set ''zh%2Fhans''"
proof -
  have e: "encodeURIComponent ''zh/hans'' = ''zh%2Fhans''"
    by code_simp
  show ?thesis
    using translateArticle_title_raw_language_encoded
      [of fallback_instance "''Albert Einstein''" "''zh/hans''" "[]" "[]" "[]" "[]"]
    unfolding e by simp
qed

section \<open>The configuration loader: defaults\<close>

lemma Number_toString_8000: "Number_toString numstr 8000 = ''8000''"
  by (simp add: Number_toString_def int_decimal_def decimal.simps digit_def)

lemma or_number_nonzero: "d \<noteq> 0 \<Longrightarrow> or_number v d \<noteq> 0"
  by (simp add: or_number_def split: option.splits)

lemma or_string_nonempty: "d \<noteq> [] \<Longrightarrow> or_string v d \<noteq> []"
  by (simp add: or_string_def split: option.splits)

text \<open>
  Claim C4. For every parsed configuration, \<open>initializeConstants\<close> returns an object in which
  a missing \<open>BACKEND_PORT\<close> is 8000, a missing \<open>FRONTEND_PORT\<close> is 5173, a missing
  \<open>DEFAULT_TIMEOUT\<close> is 30000, a missing \<open>SIMILARITY_THRESHOLD\<close> is 0.65, and a missing
  \<open>BACKEND_BASE_URL\<close> is \<open>http://127.0.0.1:\<close> followed by the resolved port
  (\<open>http://127.0.0.1:8000\<close> when the port is missing as well).
\<close>

theorem initializeConstants_fills_defaults:
  "\<exists>r. initializeConstants numstr (Inr configData) = Inr r
     \<and> (BACKEND_PORT configData = None \<longrightarrow> BACKEND_PORT' r = 8000)
     \<and> (FRONTEND_PORT configData = None \<longrightarrow> FRONTEND_PORT' r = 5173)
     \<and> (DEFAULT_TIMEOUT configData = None \<longrightarrow> DEFAULT_TIMEOUT' r = 30000)
     \<and> (SIMILARITY_THRESHOLD configData = None \<longrightarrow> SIMILARITY_THRESHOLD' r = 0.65)
     \<and> (BACKEND_BASE_URL configData = None \<longrightarrow>
          BACKEND_BASE_URL' r = ''http://127.0.0.1:'' @ Number_toString numstr (BACKEND_PORT' r))
     \<and> (BACKEND_BASE_URL configData = None \<and> BACKEND_PORT configData = None \<longrightarrow>
          BACKEND_BASE_URL' r = ''http://127.0.0.1:8000'')"
  using Number_toString_8000[of numstr]
  by (simp add: initializeConstants_def or_number_def or_string_def)

theorem initializeConstants_fills_defaults_witness:
  "\<forall>numstr. initializeConstants numstr
      (Inr \<lparr>BACKEND_BASE_URL = None, BACKEND_PORT = None, FRONTEND_PORT = None,
            OLLAMA_BASE_URL = None, DEFAULT_TIMEOUT = None, SIMILARITY_THRESHOLD = None\<rparr>)
    = Inr \<lparr>BACKEND_BASE_URL' = ''http://127.0.0.1:8000'', BACKEND_PORT' = 8000,
           FRONTEND_PORT' = 5173, OLLAMA_BASE_URL' = ''http://localhost:11434'',
           DEFAULT_TIMEOUT' = 30000, SIMILARITY_THRESHOLD' = 0.65\<rparr>"
proof
  fix numstr
  let ?cfg = "\<lparr>BACKEND_BASE_URL = None, BACKEND_PORT = None, FRONTEND_PORT = None,
            OLLAMA_BASE_URL = None, DEFAULT_TIMEOUT = None, SIMILARITY_THRESHOLD = None\<rparr>"
  obtain r where r: "initializeConstants numstr (Inr ?cfg) = Inr r"
    and d: "BACKEND_PORT' r = 8000" "FRONTEND_PORT' r = 5173" "DEFAULT_TIMEOUT' r = 30000"
      "SIMILARITY_THRESHOLD' r = 0.65" "BACKEND_BASE_URL' r = ''http://127.0.0.1:8000''"
    using initializeConstants_fills_defaults[of numstr ?cfg] by auto
  have o: "OLLAMA_BASE_URL' r = ''http://localhost:11434''"
    using r by (auto simp: initializeConstants_def or_string_def)
  show "initializeConstants numstr (Inr ?cfg)
    = Inr \<lparr>BACKEND_BASE_URL' = ''http://127.0.0.1:8000'', BACKEND_PORT' = 8000,
           FRONTEND_PORT' = 5173, OLLAMA_BASE_URL' = ''http://localhost:11434'',
           DEFAULT_TIMEOUT' = 30000, SIMILARITY_THRESHOLD' = 0.65\<rparr>"
    using r d o by (cases r) simp
qed

text \<open>
  Claim C10. A key that the configuration sets to a falsy value (the number 0, the empty
  string) resolves to its default, exactly as a missing key does; a key set to a truthy value
  keeps that value. No field of the resolved object is ever falsy.
\<close>

theorem initializeConstants_replaces_falsy_values:
  "\<exists>r. initializeConstants numstr (Inr configData) = Inr r
     \<and> (BACKEND_PORT configData = Some 0 \<longrightarrow> BACKEND_PORT' r = 8000)
     \<and> (FRONTEND_PORT configData = Some 0 \<longrightarrow> FRONTEND_PORT' r = 5173)
     \<and> (DEFAULT_TIMEOUT configData = Some 0 \<longrightarrow> DEFAULT_TIMEOUT' r = 30000)
     \<and> (SIMILARITY_THRESHOLD configData = Some 0 \<longrightarrow> SIMILARITY_THRESHOLD' r = 0.65)
     \<and> (OLLAMA_BASE_URL configData = Some [] \<longrightarrow> OLLAMA_BASE_URL' r = ''http://localhost:11434'')
     \<and> (BACKEND_BASE_URL configData = Some [] \<longrightarrow>
          BACKEND_BASE_URL' r = ''http://127.0.0.1:'' @ Number_toString numstr (BACKEND_PORT' r))
     \<and> (\<forall>q. BACKEND_PORT configData = Some q \<and> q \<noteq> 0 \<longrightarrow> BACKEND_PORT' r = q)
     \<and> (\<forall>q. FRONTEND_PORT configData = Some q \<and> q \<noteq> 0 \<longrightarrow> FRONTEND_PORT' r = q)
     \<and> (\<forall>q. DEFAULT_TIMEOUT configData = Some q \<and> q \<noteq> 0 \<longrightarrow> DEFAULT_TIMEOUT' r = q)
     \<and> (\<forall>q. SIMILARITY_THRESHOLD configData = Some q \<and> q \<noteq> 0 \<longrightarrow> SIMILARITY_THRESHOLD' r = q)
     \<and> (\<forall>u. OLLAMA_BASE_URL configData = Some u \<and> u \<noteq> [] \<longrightarrow> OLLAMA_BASE_URL' r = u)
     \<and> (\<forall>u. BACKEND_BASE_URL configData = Some u \<and> u \<noteq> [] \<longrightarrow> BACKEND_BASE_URL' r = u)
     \<and> BACKEND_PORT' r \<noteq> 0 \<and> FRONTEND_PORT' r \<noteq> 0 \<and> DEFAULT_TIMEOUT' r \<noteq> 0
     \<and> SIMILARITY_THRESHOLD' r \<noteq> 0 \<and> OLLAMA_BASE_URL' r \<noteq> [] \<and> BACKEND_BASE_URL' r \<noteq> []"
  by (simp add: initializeConstants_def or_number_nonzero or_string_nonempty)
     (simp add: or_number_def or_string_def)

theorem initializeConstants_replaces_falsy_values_witness:
  "\<forall>numstr. initializeConstants numstr
      (Inr \<lparr>BACKEND_BASE_URL = Some [], BACKEND_PORT = Some 0, FRONTEND_PORT = Some 3000,
            OLLAMA_BASE_URL = Some ''http://ollama:1'', DEFAULT_TIMEOUT = Some 0,
            SIMILARITY_THRESHOLD = Some 0\<rparr>)
    = Inr \<lparr>BACKEND_BASE_URL' = ''http://127.0.0.1:8000'', BACKEND_PORT' = 8000,
           FRONTEND_PORT' = 3000, OLLAMA_BASE_URL' = ''http://ollama:1'',
           DEFAULT_TIMEOUT' = 30000, SIMILARITY_THRESHOLD' = 0.65\<rparr>"
proof
  fix numstr
  let ?cfg = "\<lparr>BACKEND_BASE_URL = Some [], BACKEND_PORT = Some 0, FRONTEND_PORT = Some 3000,
            OLLAMA_BASE_URL = Some ''http://ollama:1'', DEFAULT_TIMEOUT = Some 0,
            SIMILARITY_THRESHOLD = Some 0\<rparr>"
  obtain r where r: "initializeConstants numstr (Inr ?cfg) = Inr r"
    and d: "BACKEND_PORT' r = 8000" "FRONTEND_PORT' r = 3000" "DEFAULT_TIMEOUT' r = 30000"
      "SIMILARITY_THRESHOLD' r = 0.65" "OLLAMA_BASE_URL' r = ''http://ollama:1''"
      "BACKEND_BASE_URL' r = ''http://127.0.0.1:'' @ Number_toString numstr (BACKEND_PORT' r)"
    using initializeConstants_replaces_falsy_values[of numstr ?cfg] by auto
  show "initializeConstants numstr (Inr ?cfg)
    = Inr \<lparr>BACKEND_BASE_URL' = ''http://127.0.0.1:8000'', BACKEND_PORT' = 8000,
           FRONTEND_PORT' = 3000, OLLAMA_BASE_URL' = ''http://ollama:1'',
           DEFAULT_TIMEOUT' = 30000, SIMILARITY_THRESHOLD' = 0.65\<rparr>"
    using r d Number_toString_8000[of numstr] by (cases r) simp
qed

section \<open>Resolving the client\<close>

text \<open>
  Claim C5. When the bridge is unreachable, when the call is rejected, and when it resolves to
  \<open>undefined\<close> (which is what the handler returns after the configuration failed to load),
  \<open>getAxiosInstance\<close> returns the client of \<open>http://127.0.0.1:8000\<close> with the timeout of
  30000 ms that every client it returns has; it never throws.
\<close>

theorem getAxiosInstance_falls_back:
  "getAxiosInstance Bridge_unreachable = fallback_instance
   \<and> getAxiosInstance (Bridge_rejected e) = fallback_instance
   \<and> getAxiosInstance (Bridge_resolved None) = fallback_instance
   \<and> getAxiosInstance (Bridge_resolved (get_app_config
        (createWindow (initializeConstants numstr (Inl msg)) main_start))) = fallback_instance
   \<and> baseURL fallback_instance = ''http://127.0.0.1:8000''
   \<and> timeout fallback_instance = 30000
   \<and> timeout (getAxiosInstance b) = 30000"
proof -
  have "timeout (getAxiosInstance b) = 30000"
    by (simp add: getAxiosInstance_def fallback_instance_def split: bridge.splits option.splits)
  then show ?thesis
    by (simp add: getAxiosInstance_def fallback_instance_def get_app_config_def
        createWindow_def grabConfig_def initializeConstants_def main_start_def)
qed

section \<open>start-backend\<close>

text \<open>
  Claim C9. When neither \<open>exec\<close> nor \<open>execFile\<close> throws at the call, the handler of
  \<open>start-backend\<close> returns \<open>{success: true}\<close> whatever the child process does later: the
  \<open>{success: false, error}\<close> that the completion callback returns on an error goes nowhere.
\<close>

theorem start_backend_reports_success:
  "start_backend_handler None None child_error = \<lparr>success = True, error = None\<rparr>
   \<and> execFile_callback (Some msg) = Some \<lparr>success = False, error = Some msg\<rparr>
   \<and> start_backend_handler None None (Some msg) = \<lparr>success = True, error = None\<rparr>"
  by (simp add: start_backend_handler_def execFile_callback_def)

section \<open>The comparison view\<close>

text \<open>
  Claim C6. On a response whose \<open>comparisons\<close> array has at least one element, \<open>onSubmit\<close>
  stores the first element as \<open>comparisonResult\<close>, and the state it leaves is the one it leaves
  for the array of that element alone.
\<close>

theorem onSubmit_reads_first_comparison_only:
  "comparisonResult (onSubmit_settle sub (Inr (c # rest)) s) = Some c
   \<and> onSubmit_settle sub (Inr (c # rest)) s = onSubmit_settle sub (Inr [c]) s"
  by (simp add: onSubmit_settle_def)

lemma sentence_items_abc:
  "map (sentence_item [''a'', ''b'', ''c'']) [0, 2]
     = [''Sentence 1: '' @ [CHR 0x22] @ ''a'' @ [CHR 0x22],
        ''Sentence 3: '' @ [CHR 0x22] @ ''c'' @ [CHR 0x22]]"
  by (simp add: sentence_item_def array_at_def int_decimal_def decimal.simps digit_def)

text \<open>
  Claim C7. With \<open>right_article_extra_info_index = [0, 2]\<close> and \<open>right_article_array =
  ["a", "b", "c"]\<close> the results section shows, under the heading that begins with ``Missing
  Information'', exactly the items \<open>Sentence 1: "a"\<close> and \<open>Sentence 3: "c"\<close>; with both index
  lists empty it shows the no-significant-differences message and no list.
\<close>

theorem render_results_lists_flagged_sentences:
  "render_results (Some \<lparr>left_article_array = la, right_article_array = [''a'', ''b'', ''c''],
      left_article_missing_info_index = li, right_article_extra_info_index = [0, 2]\<rparr>)
     = [Separator, H3 ''Comparison Results'', H4 ''Missing Information in Translation'',
        Ul [''Sentence 1: '' @ [CHR 0x22] @ ''a'' @ [CHR 0x22],
            ''Sentence 3: '' @ [CHR 0x22] @ ''c'' @ [CHR 0x22]]]
       @ (if li = [] then []
          else [H4 ''Extra Information in Translation'', Ul (map (sentence_item la) li)])
   \<and> render_results (Some \<lparr>left_article_array = la, right_article_array = ra,
      left_article_missing_info_index = [], right_article_extra_info_index = []\<rparr>)
     = [Separator, H3 ''Comparison Results'',
        Div ''No significant differences found between the texts.'']"
  using sentence_items_abc by (simp add: render_results_def)


section \<open>Stopping a comparison\<close>

lemma compareArticles_sends_no_signal:
  "axios_settle (compareArticles axiosInstance textA textB languageA languageB) ctrls backend
     = backend"
  by (simp add: axios_settle_def compareArticles_def)

lemma onSubmit_begin_request:
  "snd (snd (onSubmit_begin axiosInstance x y s))
     = compareArticles axiosInstance x y (sourceLanguage s) (targetLanguage s)"
  by (simp add: onSubmit_begin_def Let_def)

lemma click_Stop_other_render:
  "abortController s (render s) = None \<Longrightarrow> click_Stop s = s"
  by (simp add: click_Stop_def onStopComparison_def)

lemma click_Stop_pow_other_render:
  "abortController s (render s) = None \<Longrightarrow> (click_Stop ^^ n) s = s"
  by (induction n) (simp_all add: click_Stop_other_render)

lemma tick_fresh:
  "\<forall>r \<ge> render s. abortController s r = None
   \<Longrightarrow> \<forall>r \<ge> render (tick s). abortController (tick s) r = None"
  by (auto simp: tick_def)

lemma tick_pow_fresh:
  "\<forall>r \<ge> render s. abortController s r = None
   \<Longrightarrow> \<forall>r \<ge> render ((tick ^^ n) s). abortController ((tick ^^ n) s) r = None"
proof (induction n)
  case 0
  then show ?case by simp
next
  case (Suc n)
  then have "\<forall>r \<ge> render ((tick ^^ n) s). abortController ((tick ^^ n) s) r = None"
    by simp
  then have "\<forall>r \<ge> render (tick ((tick ^^ n) s)). abortController (tick ((tick ^^ n) s)) r = None"
    by (rule tick_fresh)
  then show ?case by simp
qed

lemma stop_never_reaches_the_request:
  assumes "\<forall>r > render s. abortController s r = None"
  shows "submit_and_stop axiosInstance x y ticks stops backend s
     = onSubmit_settle
         \<lparr>sub_render = render s, sub_elapsedTime = elapsedTime s,
          sub_sourceText = x, sub_targetText = y\<rparr>
         backend ((tick ^^ ticks) (fst (onSubmit_begin axiosInstance x y s)))"
proof -
  let ?s1 = "fst (onSubmit_begin axiosInstance x y s)"
  have fresh: "\<forall>r \<ge> render ?s1. abortController ?s1 r = None"
    using assms by (simp add: onSubmit_begin_def Let_def)
  have "abortController ((tick ^^ ticks) ?s1) (render ((tick ^^ ticks) ?s1)) = None"
    using tick_pow_fresh[OF fresh, of ticks] by simp
  then have stop: "(click_Stop ^^ stops) ((tick ^^ ticks) ?s1) = (tick ^^ ticks) ?s1"
    by (rule click_Stop_pow_other_render)
  show ?thesis
    unfolding submit_and_stop_def
    by (simp add: split_beta stop onSubmit_begin_request compareArticles_sends_no_signal)
       (simp add: onSubmit_begin_def Let_def)
qed

text \<open>
  Claim C1, at a failing input: the user submits, clicks Stop while the request is in flight,
  and the backend then answers with one comparison. The request is not cancelled: the
  comparison becomes \<open>comparisonResult\<close>, no message is shown, and the controller that
  \<open>onSubmit\<close> made is not even aborted.
\<close>

theorem stop_click_does_not_cancel:
  "comparisonResult (submit_and_stop fallback_instance ''source text'' ''target text'' 0 1
      (Inr [\<lparr>left_article_array = [''x''], right_article_array = [''y''],
             left_article_missing_info_index = [], right_article_extra_info_index = [0]\<rparr>])
      ComparisonSection_initial)
     = Some \<lparr>left_article_array = [''x''], right_article_array = [''y''],
             left_article_missing_info_index = [], right_article_extra_info_index = [0]\<rparr>
   \<and> alerts (submit_and_stop fallback_instance ''source text'' ''target text'' 0 1
      (Inr [\<lparr>left_article_array = [''x''], right_article_array = [''y''],
             left_article_missing_info_index = [], right_article_extra_info_index = [0]\<rparr>])
      ComparisonSection_initial) = []
   \<and> controllers (submit_and_stop fallback_instance ''source text'' ''target text'' 0 1
      (Inr [\<lparr>left_article_array = [''x''], right_article_array = [''y''],
             left_article_missing_info_index = [], right_article_extra_info_index = [0]\<rparr>])
      ComparisonSection_initial) = [False]"
  by (simp add: submit_and_stop_def onSubmit_begin_def onSubmit_settle_def click_Stop_def
      onStopComparison_def axios_settle_def compareArticles_def ComparisonSection_initial_def
      Let_def)

lemma canceled_request_message:
  "compare_error_message elapsed CanceledError = ''Comparison was stopped by the user.''"
  by (simp add: compare_error_message_def CanceledError_def)


section \<open>The handoff: written, read on arrival, deleted\<close>

lemma handleCompare_storage:
  "sessionStorage (handleCompare found form a) ''comparisonData''
     = Some \<lparr>sourceContent = sourceArticleContent form,
             translatedContent = translatedArticleContent form,
             sourceUrl = sourceArticleUrl form,
             targetLang = targetArticleLanguage form\<rparr>"
  by (simp add: handleCompare_def Let_def)

lemma handleCompare_not_found:
  "handleCompare False form a
     = a\<lparr>sessionStorage := (sessionStorage a)(''comparisonData'' \<mapsto>
            \<lparr>sourceContent = sourceArticleContent form,
             translatedContent = translatedArticleContent form,
             sourceUrl = sourceArticleUrl form,
             targetLang = targetArticleLanguage form\<rparr>),
         events := events a @ [Storage_setItem ''comparisonData''
            \<lparr>sourceContent = sourceArticleContent form,
             translatedContent = translatedArticleContent form,
             sourceUrl = sourceArticleUrl form,
             targetLang = targetArticleLanguage form\<rparr>]\<rparr>"
  by (simp add: handleCompare_def Let_def)

lemma mount_effect_nothing_stored:
  "store ''comparisonData'' = None
   \<Longrightarrow> mount_effect bi store = (None, store, ComparisonSection_initial)"
  by (simp add: mount_effect_def)

lemma mount_effect_removes:
  assumes "store ''comparisonData'' = Some h"
    and "sourceUrl h = [] \<or> targetLang h = []
         \<or> new_URL_rehost bi (sourceUrl h) (toLowerCase bi (targetLang h) @ ''.wikipedia.org'')
            \<noteq> None"
  shows "fst (snd (mount_effect bi store)) = store(''comparisonData'' := None)"
  using assms
  by (auto simp: mount_effect_def Let_def split: property.splits sum.splits)

lemma mount_effect_reads:
  assumes "store ''comparisonData'' = Some h" and "mount_effect bi store = (None, store', v)"
  shows "sourceText v = sourceContent h \<and> targetText v = translatedContent h
         \<and> form_sourceText v = sourceContent h \<and> form_targetText v = translatedContent h"
  using assms
  by (auto simp: mount_effect_def Let_def split: if_splits option.splits property.splits sum.splits)

lemma mount_effect_new_URL_throws:
  assumes "store ''comparisonData'' = Some h"
    and "sourceUrl h \<noteq> []" and "targetLang h \<noteq> []" and "\<not> has_scheme (sourceUrl h)"
  shows "fst (mount_effect bi store) = Some TypeError_new_URL
         \<and> fst (snd (mount_effect bi store)) = store"
  using assms by (simp add: mount_effect_def Let_def new_URL_rehost_def)

lemma mount_ComparisonSection_storage:
  "sessionStorage (mount_ComparisonSection bi a) = fst (snd (mount_effect bi (sessionStorage a)))"
  by (simp add: mount_ComparisonSection_def split: prod.splits option.splits)

lemma click_AI_COMPARISON:
  "phase a \<noteq> AI_COMPARISON
   \<Longrightarrow> click_phase bi AI_COMPARISON a
       = mount_ComparisonSection bi (a\<lparr>phase := AI_COMPARISON, queued_phase := None\<rparr>)"
  by (simp add: click_phase_def commit_def Let_def)

text \<open>
  On every input on which the effect reaches its end, the handoff does what is asked of it:
  the value is written by \<open>handleCompare\<close> with no navigation triggered yet, the view that mounts
  takes the texts from it, the value is gone from session storage afterwards, and a second
  mount finds nothing.
\<close>

lemma handoff_deleted_when_effect_completes:
  assumes idle: "phase a = TRANSLATION"
    and ok: "sourceArticleUrl form = [] \<or> targetArticleLanguage form = []
         \<or> new_URL_rehost bi (sourceArticleUrl form)
              (toLowerCase bi (targetArticleLanguage form) @ ''.wikipedia.org'') \<noteq> None"
  shows "let h = \<lparr>sourceContent = sourceArticleContent form,
                  translatedContent = translatedArticleContent form,
                  sourceUrl = sourceArticleUrl form,
                  targetLang = targetArticleLanguage form\<rparr>;
             a1 = handleCompare False form a;
             a2 = click_phase bi AI_COMPARISON a1
         in events a1 = events a @ [Storage_setItem ''comparisonData'' h]
          \<and> queued_phase a1 = queued_phase a
          \<and> sessionStorage a1 ''comparisonData'' = Some h
          \<and> (\<forall>v. comparison_view a2 = Some v \<longrightarrow>
                sourceText v = sourceContent h \<and> targetText v = translatedContent h)
          \<and> sessionStorage a2 ''comparisonData'' = None
          \<and> mount_effect bi (sessionStorage a2)
              = (None, sessionStorage a2, ComparisonSection_initial)"
proof -
  define h where "h = \<lparr>sourceContent = sourceArticleContent form,
                  translatedContent = translatedArticleContent form,
                  sourceUrl = sourceArticleUrl form,
                  targetLang = targetArticleLanguage form\<rparr>"
  define a1 where "a1 = handleCompare False form a"
  define a2 where "a2 = click_phase bi AI_COMPARISON a1"
  define b where "b = a1\<lparr>phase := AI_COMPARISON, queued_phase := None\<rparr>"
  have ev: "events a1 = events a @ [Storage_setItem ''comparisonData'' h]"
    and qp: "queued_phase a1 = queued_phase a" and ph: "phase a1 = phase a"
    by (simp_all add: a1_def h_def handleCompare_not_found)
  have st1: "sessionStorage a1 ''comparisonData'' = Some h"
    unfolding a1_def h_def by (rule handleCompare_storage)
  have a2_eq: "a2 = mount_ComparisonSection bi b"
    unfolding a2_def b_def using ph idle by (intro click_AI_COMPARISON) simp
  have stb: "sessionStorage b = sessionStorage a1" by (simp add: b_def)
  have ok': "sourceUrl h = [] \<or> targetLang h = []
         \<or> new_URL_rehost bi (sourceUrl h) (toLowerCase bi (targetLang h) @ ''.wikipedia.org'')
            \<noteq> None"
    using ok by (simp add: h_def)
  have rem: "fst (snd (mount_effect bi (sessionStorage a1)))
      = (sessionStorage a1)(''comparisonData'' := None)"
    using st1 ok' by (rule mount_effect_removes)
  have st2: "sessionStorage a2 ''comparisonData'' = None"
    by (simp add: a2_eq mount_ComparisonSection_storage stb rem)
  have view: "\<forall>v. comparison_view a2 = Some v \<longrightarrow>
                sourceText v = sourceContent h \<and> targetText v = translatedContent h"
  proof (intro allI impI)
    fix v assume cv: "comparison_view a2 = Some v"
    obtain e store' w where m: "mount_effect bi (sessionStorage a1) = (e, store', w)"
      by (cases "mount_effect bi (sessionStorage a1)") auto
    from cv have "e = None \<and> w = v"
      by (cases e) (simp_all add: a2_eq mount_ComparisonSection_def stb m)
    with m have "mount_effect bi (sessionStorage a1) = (None, store', v)" by simp
    with st1 show "sourceText v = sourceContent h \<and> targetText v = translatedContent h"
      using mount_effect_reads by blast
  qed
  have again: "mount_effect bi (sessionStorage a2)
              = (None, sessionStorage a2, ComparisonSection_initial)"
    using st2 by (rule mount_effect_nothing_stored)
  show ?thesis
    unfolding Let_def h_def[symmetric] a1_def[symmetric] a2_def[symmetric]
    using ev qp st1 view st2 again by simp
qed

text \<open>
  Claim C8, at a failing input: the source URL field holds \<open>en.wikipedia.org/wiki/Cat\<close> (no
  scheme) and the target language is \<open>French\<close> when the user presses Compare and then opens the
  comparison view. The value is written with no navigation triggered yet, as the claim says.
  In the mount effect \<open>new URL\<close> throws before \<open>removeItem\<close>: the view does not come up and
  the value is still in session storage, where a second mount finds it and throws again.
\<close>

theorem handoff_survives_failed_mount:
  "events (handleCompare False
      \<lparr>sourceArticleUrl = ''en.wikipedia.org/wiki/Cat'', targetArticleLanguage = ''French'',
       sourceArticleContent = ''The cat'', translatedArticleContent = ''Le chat''\<rparr> app_start)
     = [Storage_setItem ''comparisonData''
          \<lparr>sourceContent = ''The cat'', translatedContent = ''Le chat'',
           sourceUrl = ''en.wikipedia.org/wiki/Cat'', targetLang = ''French''\<rparr>]
   \<and> sessionStorage
        (click_phase bi AI_COMPARISON
           (handleCompare False
              \<lparr>sourceArticleUrl = ''en.wikipedia.org/wiki/Cat'', targetArticleLanguage = ''French'',
               sourceArticleContent = ''The cat'', translatedArticleContent = ''Le chat''\<rparr>
              app_start)) ''comparisonData''
     = Some \<lparr>sourceContent = ''The cat'', translatedContent = ''Le chat'',
             sourceUrl = ''en.wikipedia.org/wiki/Cat'', targetLang = ''French''\<rparr>
   \<and> uncaught
        (click_phase bi AI_COMPARISON
           (handleCompare False
              \<lparr>sourceArticleUrl = ''en.wikipedia.org/wiki/Cat'', targetArticleLanguage = ''French'',
               sourceArticleContent = ''The cat'', translatedArticleContent = ''Le chat''\<rparr>
              app_start))
     = Some TypeError_new_URL
   \<and> comparison_view
        (click_phase bi AI_COMPARISON
           (handleCompare False
              \<lparr>sourceArticleUrl = ''en.wikipedia.org/wiki/Cat'', targetArticleLanguage = ''French'',
               sourceArticleContent = ''The cat'', translatedArticleContent = ''Le chat''\<rparr>
              app_start))
     = None
   \<and> fst (mount_effect bi
        (sessionStorage
          (click_phase bi AI_COMPARISON
             (handleCompare False
                \<lparr>sourceArticleUrl = ''en.wikipedia.org/wiki/Cat'', targetArticleLanguage = ''French'',
                 sourceArticleContent = ''The cat'', translatedArticleContent = ''Le chat''\<rparr>
                app_start))))
     = Some TypeError_new_URL"
proof -
  have sch: "\<not> has_scheme ''en.wikipedia.org/wiki/Cat''"
    by (simp add: has_scheme_def ascii_alpha_def lower_letter_def scheme_char_def)
  show ?thesis
    using sch
    by (simp add: handleCompare_def click_phase_def commit_def mount_ComparisonSection_def
        mount_effect_def new_URL_rehost_def app_start_def Let_def)
qed

lemma langMap_get_examples:
  "langMap_get ''French'' = Own ''fr'' \<and> langMap_get ''fr'' = Absent
   \<and> langMap_get ''toString'' = Inherited ''toString''
   \<and> useState_inherited ''toString'' ''en'' = Inr (Text ''[object Undefined]'')"
  by (simp add: langMap_get_def langMap_def Object_prototype_properties_def
      useState_inherited_def)

end
